theory Spec2Isabelle
  imports Complex_Main "HOL-Library.Multiset"
begin

section \<open>JavaScript values\<close>

text \<open>
  The form values are typed \<^verbatim>\<open>Record<string, any>\<close>. The values the form controls
  produce are booleans (checkbox) and strings (text, number and select inputs); numbers
  are included because the validators compare against \<^verbatim>\<open>0\<close>. \<open>VFunction\<close> stands for a
  function or the prototype object, which is what reading a member inherited from
  \<^verbatim>\<open>Object.prototype\<close> gives: truthy, not a string, \<^verbatim>\<open>NaN\<close> as a number. A read that
  gives \<^verbatim>\<open>undefined\<close> is \<open>None\<close>. The validators take the read \<^verbatim>\<open>values[k]\<close> as a
  function of the key. Strings are lists of 8-bit code units.
\<close>

datatype jsnum = NaN | PosInfinity | NegInfinity | Finite rat

datatype jsval = VBool bool | VStr string | VNum jsnum | VFunction

text \<open>
  ToBoolean: \<^verbatim>\<open>false\<close>, \<^verbatim>\<open>''\<close>, \<^verbatim>\<open>0\<close> and \<^verbatim>\<open>NaN\<close> are falsy; every object is truthy.
\<close>

fun truthy :: "jsval \<Rightarrow> bool" where
  "truthy (VBool b) = b"
| "truthy (VStr s) = (s \<noteq> [])"
| "truthy (VNum n) = (n \<noteq> NaN \<and> n \<noteq> Finite 0)"
| "truthy VFunction = True"

text \<open>\<^verbatim>\<open>!value\<close> for a value that may be \<^verbatim>\<open>undefined\<close>.\<close>

definition js_not :: "jsval option \<Rightarrow> bool" where
  "js_not v = (case v of None \<Rightarrow> True | Some x \<Rightarrow> \<not> truthy x)"

text \<open>
  White space and line terminators (the characters \<^verbatim>\<open>String.prototype.trim\<close> strips and
  \<^verbatim>\<open>Number\<close> skips), as far as they are 8-bit code units: TAB, LF, VT, FF, CR, SP, NBSP.
\<close>

definition isWhiteSpace :: "char \<Rightarrow> bool" where
  "isWhiteSpace c =
     (c \<in> set [CHR 0x09, CHR 0x0A, CHR 0x0B, CHR 0x0C, CHR 0x0D, CHR 0x20, CHR 0xA0])"

definition trim :: "string \<Rightarrow> string" where
  "trim s = rev (dropWhile isWhiteSpace (rev (dropWhile isWhiteSpace s)))"

text \<open>
  \<^verbatim>\<open>Number(s)\<close> on a string follows the StringNumericLiteral grammar of ECMAScript:
  after trimming, the empty string is \<open>0\<close>; otherwise the text is a binary, octal or
  hexadecimal integer (\<^verbatim>\<open>0b\<close>, \<^verbatim>\<open>0o\<close>, \<^verbatim>\<open>0x\<close>, unsigned) or an optionally signed
  decimal literal or \<^verbatim>\<open>Infinity\<close>; any other text is \<^verbatim>\<open>NaN\<close>.
\<close>

definition isDecimalDigit :: "char \<Rightarrow> bool" where
  "isDecimalDigit c = (c \<in> set ''0123456789'')"

definition isHexDigit :: "char \<Rightarrow> bool" where
  "isHexDigit c = (c \<in> set ''0123456789abcdefABCDEF'')"

definition isOctalDigit :: "char \<Rightarrow> bool" where
  "isOctalDigit c = (c \<in> set ''01234567'')"

definition isBinaryDigit :: "char \<Rightarrow> bool" where
  "isBinaryDigit c = (c \<in> set ''01'')"

definition isDigits :: "(char \<Rightarrow> bool) \<Rightarrow> string \<Rightarrow> bool" where
  "isDigits d s = (s \<noteq> [] \<and> list_all d s)"

definition isSignedInteger :: "string \<Rightarrow> bool" where
  "isSignedInteger s =
     (case s of
        [] \<Rightarrow> False
      | c # r \<Rightarrow> if c = CHR ''+'' \<or> c = CHR ''-'' then isDigits isDecimalDigit r
                 else isDigits isDecimalDigit s)"

text \<open>An optional exponent part, then the end of the text.\<close>

definition isExponentOpt :: "string \<Rightarrow> bool" where
  "isExponentOpt s =
     (case s of
        [] \<Rightarrow> True
      | c # r \<Rightarrow> (c = CHR ''e'' \<or> c = CHR ''E'') \<and> isSignedInteger r)"

definition isStrUnsignedDecimalLiteral :: "string \<Rightarrow> bool" where
  "isStrUnsignedDecimalLiteral s =
     (s = ''Infinity'' \<or>
      (let ip = takeWhile isDecimalDigit s; r1 = dropWhile isDecimalDigit s
       in case r1 of
            [] \<Rightarrow> ip \<noteq> []
          | c # r2 \<Rightarrow>
              if c = CHR ''.''
              then (let fp = takeWhile isDecimalDigit r2; r3 = dropWhile isDecimalDigit r2
                    in \<not> (ip = [] \<and> fp = []) \<and> isExponentOpt r3)
              else ip \<noteq> [] \<and> isExponentOpt r1))"

definition isNonDecimalIntegerLiteral :: "string \<Rightarrow> bool" where
  "isNonDecimalIntegerLiteral s =
     (case s of
        z # x # r \<Rightarrow>
          z = CHR ''0'' \<and>
          (((x = CHR ''x'' \<or> x = CHR ''X'') \<and> isDigits isHexDigit r) \<or>
           ((x = CHR ''o'' \<or> x = CHR ''O'') \<and> isDigits isOctalDigit r) \<or>
           ((x = CHR ''b'' \<or> x = CHR ''B'') \<and> isDigits isBinaryDigit r))
      | _ \<Rightarrow> False)"

definition isStrNumericLiteral :: "string \<Rightarrow> bool" where
  "isStrNumericLiteral s =
     (isNonDecimalIntegerLiteral s \<or>
      (case s of
         [] \<Rightarrow> False
       | c # r \<Rightarrow> if c = CHR ''+'' \<or> c = CHR ''-'' then isStrUnsignedDecimalLiteral r
                  else isStrUnsignedDecimalLiteral s))"

definition isStringNumericLiteral :: "string \<Rightarrow> bool" where
  "isStringNumericLiteral s = (let t = trim s in t = [] \<or> isStrNumericLiteral t)"

text \<open>\<^verbatim>\<open>isNaN(Number(value))\<close>: a boolean converts to 0 or 1, a number to
  itself, a function to \<^verbatim>\<open>NaN\<close>.\<close>

fun isNaN_Number :: "jsval \<Rightarrow> bool" where
  "isNaN_Number (VBool b) = False"
| "isNaN_Number (VStr s) = (\<not> isStringNumericLiteral s)"
| "isNaN_Number (VNum n) = (n = NaN)"
| "isNaN_Number VFunction = True"



text \<open>\<^verbatim>\<open>s.split(c)\<close> for a one-character separator.\<close>

fun split :: "char \<Rightarrow> string \<Rightarrow> string list" where
  "split c [] = [[]]"
| "split c (x # xs) =
     (if x = c then [] # split c xs
      else (case split c xs of [] \<Rightarrow> [[x]] | w # ws \<Rightarrow> (x # w) # ws))"

text \<open>
  \<^verbatim>\<open>xs.findIndex(p)\<close>: the first index whose element satisfies \<open>p\<close>; the result
  \<^verbatim>\<open>-1\<close> is \<open>None\<close>.
\<close>

fun findIndex :: "('a \<Rightarrow> bool) \<Rightarrow> 'a list \<Rightarrow> nat option" where
  "findIndex p [] = None"
| "findIndex p (x # xs) = (if p x then Some 0 else map_option Suc (findIndex p xs))"

text \<open>\<^verbatim>\<open>xs.slice(-n)\<close>: the last \<open>n\<close> elements.\<close>

definition slice_last :: "nat \<Rightarrow> 'a list \<Rightarrow> 'a list" where
  "slice_last n xs = drop (length xs - n) xs"

text \<open>
  \<^verbatim>\<open>xs.splice(start, deleteCount, ...items)\<close> for a non-negative integer \<open>start\<close>: the
  elements removed and the array afterwards. A start past the end removes nothing and
  inserts at the end; nothing is thrown.
\<close>

definition splice :: "'a list \<Rightarrow> nat \<Rightarrow> nat \<Rightarrow> 'a list \<Rightarrow> 'a list \<times> 'a list" where
  "splice xs start deleteCount items =
     (take deleteCount (drop start xs),
      take start xs @ items @ drop (start + deleteCount) xs)"

section \<open>Data model (types/form.ts)\<close>

datatype FieldType = TLabel | TText | TNumber | TBoolean | TEnum

datatype LabelStyle = H1 | H2 | H3

fun typeName :: "FieldType \<Rightarrow> string" where
  "typeName TLabel = ''label''"
| "typeName TText = ''text''"
| "typeName TNumber = ''number''"
| "typeName TBoolean = ''boolean''"
| "typeName TEnum = ''enum''"

fun styleName :: "LabelStyle \<Rightarrow> string" where
  "styleName H1 = ''h1''"
| "styleName H2 = ''h2''"
| "styleName H3 = ''h3''"

text \<open>An optional attribute (\<^verbatim>\<open>labelStyle?\<close>, \<^verbatim>\<open>required?\<close>, ...) is an \<open>option\<close>.\<close>

record FormField =
  field_id :: string
  ftype :: FieldType
  label :: string
  labelStyle :: "LabelStyle option"
  options :: "string list option"
  required :: "bool option"
  val :: "jsval option"

text \<open>
  Sections and templates are polymorphic in what their field arrays hold: the functions
  of the application context never look inside a field.
\<close>

record 'f FormSection =
  section_id :: string
  title :: string
  section_fields :: "'f list"

record 'f FormTemplate =
  template_id :: string
  name :: string
  sections :: "'f FormSection list"
  createdAt :: string
  updatedAt :: string

record FormSubmission =
  templateId :: string
  data :: "string \<Rightarrow> jsval option"
  submittedAt :: string

text \<open>\<^verbatim>\<open>Partial<FormField>\<close>: every attribute may be missing.\<close>

record PartialFormField =
  p_id :: "string option"
  p_type :: "FieldType option"
  p_label :: "string option"
  p_labelStyle :: "LabelStyle option"
  p_options :: "string list option"
  p_required :: "bool option"
  p_value :: "jsval option"

text \<open>The single-file page (src/unnamed/part\_000) declares its own interfaces.\<close>

record FormField_p0 =
  id_p0 :: string
  type_p0 :: FieldType
  label_p0 :: string
  required_p0 :: "bool option"
  options_p0 :: "string list option"
  style_p0 :: "LabelStyle option"

record FormSubmission_p0 =
  submission_id_p0 :: string
  templateId_p0 :: string
  templateName_p0 :: string
  data_p0 :: "string \<Rightarrow> jsval option"
  submittedAt_p0 :: string

section \<open>Application context (src/context/AppContext.tsx)\<close>

text \<open>
  The provider's state and the two local-storage keys it writes. What
  \<^verbatim>\<open>localStorage.setItem(key, JSON.stringify(xs))\<close> stores is represented by \<open>xs\<close> itself;
  \<open>None\<close> is a key never written. \<^verbatim>\<open>new Date().toISOString()\<close> is the parameter
  \<open>now\<close>.
\<close>

record 'f AppState =
  templates :: "'f FormTemplate list"
  submissions :: "FormSubmission list"
  ls_formTemplates :: "'f FormTemplate list option"
  ls_formSubmissions :: "FormSubmission list option"

definition saveTemplate :: "string \<Rightarrow> 'f FormTemplate \<Rightarrow> 'f AppState \<Rightarrow> 'f AppState" where
  "saveTemplate now template st =
     (let updatedTemplate = template\<lparr>updatedAt := now\<rparr>;
          newTemplates =
            (case findIndex (\<lambda>t. template_id t = template_id template) (templates st) of
               Some existingIndex \<Rightarrow> (templates st)[existingIndex := updatedTemplate]
             | None \<Rightarrow>
                 (let appended = templates st @ [updatedTemplate]
                  in if length appended > 5 then slice_last 5 appended else appended))
      in st\<lparr>templates := newTemplates, ls_formTemplates := Some newTemplates\<rparr>)"

definition deleteTemplate :: "string \<Rightarrow> 'f AppState \<Rightarrow> 'f AppState" where
  "deleteTemplate templateId' st =
     (let newTemplates = filter (\<lambda>t. template_id t \<noteq> templateId') (templates st)
      in st\<lparr>templates := newTemplates, ls_formTemplates := Some newTemplates\<rparr>)"

definition saveSubmission :: "FormSubmission \<Rightarrow> 'f AppState \<Rightarrow> 'f AppState" where
  "saveSubmission submission st =
     (let newSubmissions = submissions st @ [submission]
      in st\<lparr>submissions := newSubmissions, ls_formSubmissions := Some newSubmissions\<rparr>)"

section \<open>Template list (src/unnamed/part\_004)\<close>


section \<open>Application context of the single-file page (src/unnamed/part\_000)\<close>

text \<open>
  Here \<^verbatim>\<open>saveTemplate\<close> and \<^verbatim>\<open>deleteTemplate\<close> are state updaters
  (\<^verbatim>\<open>setTemplates(prev => ...)\<close>); an effect writes each collection to local storage
  whenever it changes. The toasts a handler raises are returned with the new state.
\<close>

datatype Toast = TemplateLimitReached | TemplateNameRequired | SectionRequired | TemplateSaved

definition saveTemplate_p0 ::
  "string \<Rightarrow> 'f FormTemplate \<Rightarrow> 'f FormTemplate list \<Rightarrow> Toast list \<times> 'f FormTemplate list" where
  "saveTemplate_p0 now template prev =
     (case findIndex (\<lambda>t. template_id t = template_id template) prev of
        Some existing \<Rightarrow> ([], prev[existing := template\<lparr>updatedAt := now\<rparr>])
      | None \<Rightarrow>
          if length prev \<ge> 5 then ([TemplateLimitReached], prev)
          else ([], prev @ [template]))"

definition deleteTemplate_p0 ::
  "string \<Rightarrow> 'f FormTemplate list \<times> FormSubmission_p0 list
     \<Rightarrow> 'f FormTemplate list \<times> FormSubmission_p0 list" where
  "deleteTemplate_p0 templateId' st =
     (filter (\<lambda>t. template_id t \<noteq> templateId') (fst st),
      filter (\<lambda>s. templateId_p0 s \<noteq> templateId') (snd st))"

section \<open>Submission validation\<close>

subsection \<open>FormFiller.validateForm (src/unnamed/part\_003)\<close>

text \<open>
  \<open>fieldError\<close> is the body of the inner \<^verbatim>\<open>forEach\<close>: the message it assigns to
  \<^verbatim>\<open>newErrors[field.id]\<close>, if any. \<open>validateForm_errors\<close> is \<^verbatim>\<open>newErrors\<close> after both
  loops, \<open>validateForm\<close> the boolean returned.
\<close>

definition isNaN_Number_opt :: "jsval option \<Rightarrow> bool" where
  "isNaN_Number_opt v = (case v of None \<Rightarrow> True | Some x \<Rightarrow> isNaN_Number x)"

definition fieldError :: "(string \<Rightarrow> jsval option) \<Rightarrow> FormField \<Rightarrow> string option" where
  "fieldError values field =
     (if ftype field \<noteq> TLabel \<and> required field = Some True then
        (let value = values (field_id field) in
         if js_not value \<or> value = Some (VStr '''') \<or>
            (case value of Some (VStr s) \<Rightarrow> trim s = '''' | _ \<Rightarrow> False)
         then Some (label field @ '' is required'')
         else if ftype field = TNumber \<and> isNaN_Number_opt value
         then Some (label field @ '' must be a valid number'')
         else None)
      else None)"

definition validateForm_errors ::
  "FormField FormTemplate \<Rightarrow> (string \<Rightarrow> jsval option) \<Rightarrow> (string \<Rightarrow> string option)" where
  "validateForm_errors template values =
     foldl (\<lambda>errs section.
              foldl (\<lambda>errs field.
                       case fieldError values field of
                         None \<Rightarrow> errs
                       | Some msg \<Rightarrow> errs(field_id field \<mapsto> msg))
                    errs (section_fields section))
           Map.empty (sections template)"

definition validateForm :: "FormField FormTemplate \<Rightarrow> (string \<Rightarrow> jsval option) \<Rightarrow> bool" where
  "validateForm template values = (validateForm_errors template values = Map.empty)"

text \<open>
  \<open>isFormValid\<close> enables the submit button. The callback of \<^verbatim>\<open>every\<close> returns
  \<^verbatim>\<open>value && value !== '' && (...)\<close>, read as a boolean.
\<close>

definition isFormValid :: "FormField FormTemplate \<Rightarrow> (string \<Rightarrow> jsval option) \<Rightarrow> bool" where
  "isFormValid template values =
     list_all (\<lambda>section.
        list_all (\<lambda>field.
           if ftype field = TLabel \<or> required field \<noteq> Some True then True
           else (let value = values (field_id field)
                 in \<not> js_not value \<and> value \<noteq> Some (VStr '''') \<and>
                    \<not> (ftype field = TNumber \<and> isNaN_Number_opt value)))
          (section_fields section))
       (sections template)"

subsection \<open>FormFiller.validateForm of the single-file page (src/unnamed/part\_000)\<close>

definition fieldError_p0 :: "(string \<Rightarrow> jsval option) \<Rightarrow> FormField_p0 \<Rightarrow> string option" where
  "fieldError_p0 formData field =
     (if type_p0 field \<noteq> TLabel \<and> required_p0 field = Some True then
        (let value = formData (id_p0 field) in
         if js_not value \<and> value \<noteq> Some (VNum (Finite 0)) \<and> value \<noteq> Some (VBool False)
         then Some ''This field is required''
         else if type_p0 field = TNumber \<and> isNaN_Number_opt value
         then Some ''Please enter a valid number''
         else None)
      else None)"

definition validateForm_errors_p0 ::
  "FormField_p0 FormTemplate \<Rightarrow> (string \<Rightarrow> jsval option) \<Rightarrow> (string \<Rightarrow> string option)" where
  "validateForm_errors_p0 template formData =
     foldl (\<lambda>errs section.
              foldl (\<lambda>errs field.
                       case fieldError_p0 formData field of
                         None \<Rightarrow> errs
                       | Some msg \<Rightarrow> errs(id_p0 field \<mapsto> msg))
                    errs (section_fields section))
           Map.empty (sections template)"


section \<open>Template builder (src/components/TemplateBuilder.tsx, lines 1--283)\<close>

definition isTemplateValid :: "'f FormTemplate \<Rightarrow> bool" where
  "isTemplateValid currentTemplate' =
     (trim (name currentTemplate') \<noteq> '''' \<and>
      length (sections currentTemplate') > 0 \<and>
      list_ex (\<lambda>section. length (section_fields section) > 0) (sections currentTemplate'))"

definition updateSection :: "'f FormSection \<Rightarrow> 'f FormTemplate \<Rightarrow> 'f FormTemplate" where
  "updateSection updatedSection prev =
     prev\<lparr>sections :=
       map (\<lambda>section. if section_id section = section_id updatedSection then updatedSection
                       else section)
           (sections prev)\<rparr>"

text \<open>
  The object literal \<^verbatim>\<open>completeField\<close> of \<^verbatim>\<open>addFieldToSection\<close>. \<^verbatim>\<open>Date.now()\<close>,
  printed in decimal, is the parameter \<open>nowMs\<close>. \<^verbatim>\<open>a || b\<close> takes \<open>b\<close> when \<open>a\<close> is missing
  or the empty string, \<^verbatim>\<open>a ?? b\<close> only when \<open>a\<close> is missing.
\<close>

definition completeField :: "string \<Rightarrow> PartialFormField \<Rightarrow> FormField" where
  "completeField nowMs field =
     \<lparr>field_id = (case p_id field of
                     None \<Rightarrow> ''field_'' @ nowMs
                   | Some i \<Rightarrow> if i = '''' then ''field_'' @ nowMs else i),
      ftype = (case p_type field of None \<Rightarrow> TText | Some t \<Rightarrow> t),
      label = (case p_label field of
                 None \<Rightarrow> ''New Field''
               | Some l \<Rightarrow> if l = '''' then ''New Field'' else l),
      labelStyle = p_labelStyle field,
      options = p_options field,
      required = Some (case p_required field of None \<Rightarrow> False | Some b \<Rightarrow> b),
      val = Some (if p_type field = Some TBoolean then VBool False else VStr '''')\<rparr>"

definition addFieldToSection ::
  "string \<Rightarrow> string \<Rightarrow> PartialFormField \<Rightarrow> FormField FormTemplate \<Rightarrow> FormField FormTemplate" where
  "addFieldToSection nowMs sectionId field prev =
     prev\<lparr>sections :=
       map (\<lambda>section.
              if section_id section = sectionId
              then section\<lparr>section_fields := section_fields section @ [completeField nowMs field]\<rparr>
              else section)
           (sections prev)\<rparr>"

subsection \<open>Drag and drop\<close>

text \<open>
  A \<^verbatim>\<open>DropResult\<close> of react-beautiful-dnd: indices are non-negative integers, a drop
  outside every list has no destination. A JavaScript array slot may hold
  \<^verbatim>\<open>undefined\<close>, so the field arrays that the drag handler rebuilds are lists of slots:
  \<open>Some f\<close> for a field, \<open>None\<close> for \<^verbatim>\<open>undefined\<close>.
\<close>

record DraggableLocation =
  droppableId :: string
  index :: nat

record DropResult =
  source :: DraggableLocation
  destination :: "DraggableLocation option"

text \<open>
  The three array statements of the handler: copy, \<^verbatim>\<open>splice(source.index, 1)\<close> with
  the first removed element bound to \<^verbatim>\<open>reorderedField\<close> (\<^verbatim>\<open>undefined\<close> when nothing was
  removed), \<^verbatim>\<open>splice(destination.index, 0, reorderedField)\<close>.
\<close>

definition reorder :: "'f option list \<Rightarrow> nat \<Rightarrow> nat \<Rightarrow> 'f option list" where
  "reorder fields' sourceIndex destinationIndex =
     (let newFields = fields';
          (removed, newFields) = splice newFields sourceIndex 1 [];
          reorderedField = (case removed of [] \<Rightarrow> None | x # _ \<Rightarrow> x)
      in snd (splice newFields destinationIndex 0 [reorderedField]))"

definition handleDragEnd :: "DropResult \<Rightarrow> 'f option FormTemplate \<Rightarrow> 'f option FormTemplate" where
  "handleDragEnd result currentTemplate' =
     (case destination result of
        None \<Rightarrow> currentTemplate'
      | Some dest \<Rightarrow>
          if droppableId (source result) = droppableId dest then
            (case find (\<lambda>s. section_id s = droppableId (source result))
                       (sections currentTemplate') of
               None \<Rightarrow> currentTemplate'
             | Some section \<Rightarrow>
                 updateSection
                   (section\<lparr>section_fields :=
                      reorder (section_fields section) (index (source result)) (index dest)\<rparr>)
                   currentTemplate')
          else currentTemplate')"

subsection \<open>Serialisation and the dirty flag\<close>

text \<open>
  \<^verbatim>\<open>JSON.stringify\<close> is modelled up to the rendering of the value tree as text: an
  attribute that is \<^verbatim>\<open>undefined\<close> is left out, \<^verbatim>\<open>NaN\<close> and the infinities become
  \<^verbatim>\<open>null\<close>, and the attributes of a field come in the order in which
  \<^verbatim>\<open>addFieldToSection\<close> writes them.
\<close>

datatype json =
  JNull | JBool bool | JNum rat | JStr string | JArr "json list" | JObj "(string \<times> json) list"

fun jsonOfValue :: "jsval \<Rightarrow> json" where
  "jsonOfValue (VBool b) = JBool b"
| "jsonOfValue (VStr s) = JStr s"
| "jsonOfValue (VNum (Finite q)) = JNum q"
| "jsonOfValue (VNum NaN) = JNull"
| "jsonOfValue (VNum PosInfinity) = JNull"
| "jsonOfValue (VNum NegInfinity) = JNull"
| "jsonOfValue VFunction = JNull"

text \<open>
  A property whose value is a function is left out of an object, like one that is
  \<^verbatim>\<open>undefined\<close> (\<^verbatim>\<open>null\<close> is its rendering inside an array only).
\<close>

definition serialisable :: "jsval option \<Rightarrow> jsval option" where
  "serialisable v = (if v = Some VFunction then None else v)"

definition optProp :: "string \<Rightarrow> ('a \<Rightarrow> json) \<Rightarrow> 'a option \<Rightarrow> (string \<times> json) list" where
  "optProp key enc v = (case v of None \<Rightarrow> [] | Some x \<Rightarrow> [(key, enc x)])"

definition fieldJSON :: "FormField \<Rightarrow> json" where
  "fieldJSON f =
     JObj ([(''id'', JStr (field_id f)),
            (''type'', JStr (typeName (ftype f))),
            (''label'', JStr (label f))]
           @ optProp ''labelStyle'' (\<lambda>s. JStr (styleName s)) (labelStyle f)
           @ optProp ''options'' (\<lambda>os. JArr (map JStr os)) (options f)
           @ optProp ''required'' JBool (required f)
           @ optProp ''value'' jsonOfValue (serialisable (val f)))"

definition sectionJSON :: "FormField FormSection \<Rightarrow> json" where
  "sectionJSON s =
     JObj [(''id'', JStr (section_id s)),
           (''title'', JStr (title s)),
           (''fields'', JArr (map fieldJSON (section_fields s)))]"

definition templateJSON :: "FormField FormTemplate \<Rightarrow> json" where
  "templateJSON t =
     JObj [(''id'', JStr (template_id t)),
           (''name'', JStr (name t)),
           (''sections'', JArr (map sectionJSON (sections t))),
           (''createdAt'', JStr (createdAt t)),
           (''updatedAt'', JStr (updatedAt t))]"

subsection \<open>Saving and leaving\<close>

text \<open>
  One editing session: the provider's state, the view shown by the page
  (\<^verbatim>\<open>currentView\<close> of Index.tsx) and the builder's own state. \<^verbatim>\<open>onSave\<close> and \<^verbatim>\<open>onBack\<close>
  are the callbacks the page passes in; both switch to the list view.
\<close>

datatype View = ListView | BuilderView | FillerView

record Session =
  ctx :: "FormField AppState"
  currentView :: View
  currentTemplate :: "FormField FormTemplate"
  originalTemplate :: "FormField FormTemplate"
  isAlertOpen :: bool

definition isDirty :: "Session \<Rightarrow> bool" where
  "isDirty S = (templateJSON (currentTemplate S) \<noteq> templateJSON (originalTemplate S))"

definition onSave :: "Session \<Rightarrow> Session" where
  "onSave S = S\<lparr>currentView := ListView\<rparr>"

definition onBack :: "Session \<Rightarrow> Session" where
  "onBack S = S\<lparr>currentView := ListView\<rparr>"

definition handleSave :: "string \<Rightarrow> Session \<Rightarrow> Session" where
  "handleSave now S =
     (if \<not> isTemplateValid (currentTemplate S) then S
      else onSave (S\<lparr>ctx := saveTemplate now (currentTemplate S) (ctx S)\<rparr>))"

definition handleBack :: "Session \<Rightarrow> Session" where
  "handleBack S = (if isDirty S then S\<lparr>isAlertOpen := True\<rparr> else onBack S)"

text \<open>The two actions of the dialog: "Discard \& Exit" is \<open>onBack\<close>; "Save \& Exit":\<close>

definition saveAndExit :: "string \<Rightarrow> Session \<Rightarrow> Session" where
  "saveAndExit now S = onBack (handleSave now S)"

section \<open>Field palette (src/components/FieldTypeSelector.tsx)\<close>

text \<open>
  \<open>handleAddField\<close> builds the partial field handed to \<^verbatim>\<open>onAddField\<close>; \<open>None\<close> when it
  returns without calling it. \<open>promptAnswer\<close> is what \<^verbatim>\<open>prompt\<close> returned (\<open>None\<close> for
  \<^verbatim>\<open>null\<close>).
\<close>

definition handleAddField :: "string \<Rightarrow> FieldType \<Rightarrow> string option \<Rightarrow> PartialFormField option" where
  "handleAddField nowMs ty promptAnswer =
     (let baseField =
            \<lparr>p_id = Some (''field_'' @ nowMs),
             p_type = Some ty,
             p_label = Some (if ty = TLabel then ''New Label''
                             else ''New '' @ typeName ty @ '' field''),
             p_labelStyle = None,
             p_options = None,
             p_required = Some (ty \<noteq> TLabel),
             p_value = None\<rparr>
      in if ty = TLabel then Some (baseField\<lparr>p_labelStyle := Some H2\<rparr>)
         else if ty = TEnum then
           (case promptAnswer of
              None \<Rightarrow> None
            | Some opts \<Rightarrow>
                if opts = '''' then None
                else Some (baseField\<lparr>p_options := Some (map trim (split CHR '','' opts))\<rparr>))
         else Some baseField)"

section \<open>Earlier template builder (src/components/TemplateBuilder.tsx, lines 284--468)\<close>

definition completeField_tb2 :: "string \<Rightarrow> PartialFormField \<Rightarrow> FormField" where
  "completeField_tb2 nowMs field =
     \<lparr>field_id = (case p_id field of
                     None \<Rightarrow> ''field_'' @ nowMs
                   | Some i \<Rightarrow> if i = '''' then ''field_'' @ nowMs else i),
      ftype = (case p_type field of None \<Rightarrow> TText | Some t \<Rightarrow> t),
      label = (case p_label field of None \<Rightarrow> '''' | Some l \<Rightarrow> l),
      labelStyle = p_labelStyle field,
      options = p_options field,
      required = Some (case p_required field of None \<Rightarrow> True | Some b \<Rightarrow> b),
      val = None\<rparr>"

definition addFieldToSection_tb2 ::
  "string \<Rightarrow> string \<Rightarrow> PartialFormField \<Rightarrow> FormField FormTemplate \<Rightarrow> FormField FormTemplate" where
  "addFieldToSection_tb2 nowMs sectionId field prev =
     prev\<lparr>sections :=
       map (\<lambda>section.
              if section_id section = sectionId
              then section\<lparr>section_fields :=
                     section_fields section @ [completeField_tb2 nowMs field]\<rparr>
              else section)
           (sections prev)\<rparr>"

section \<open>Template builder of the single-file page (src/unnamed/part\_000)\<close>

definition onDragEnd_p0 :: "DropResult \<Rightarrow> 'f option FormTemplate \<Rightarrow> 'f option FormTemplate" where
  "onDragEnd_p0 result prev =
     (case destination result of
        None \<Rightarrow> prev
      | Some dest \<Rightarrow>
          prev\<lparr>sections :=
            map (\<lambda>section.
                   if section_id section = droppableId (source result)
                   then section\<lparr>section_fields :=
                          reorder (section_fields section) (index (source result)) (index dest)\<rparr>
                   else section)
                (sections prev)\<rparr>)"

text \<open>
  \<^verbatim>\<open>handleSave\<close> with the page's \<^verbatim>\<open>onSave\<close> (\<^verbatim>\<open>saveToContext(template)\<close>, then the list
  view), on the saved templates and the view; the toasts raised come first.
\<close>

datatype View_p0 = ListView_p0 | BuilderView_p0 | FillerView_p0 | FillSelectorView_p0

definition handleSave_p0 ::
  "string \<Rightarrow> 'f FormTemplate \<Rightarrow> 'f FormTemplate list \<times> View_p0
     \<Rightarrow> Toast list \<times> 'f FormTemplate list \<times> View_p0" where
  "handleSave_p0 now currentTemplate' st =
     (if trim (name currentTemplate') = '''' then ([TemplateNameRequired], st)
      else if length (sections currentTemplate') = 0 then ([SectionRequired], st)
      else (let saved = saveTemplate_p0 now currentTemplate' (fst st)
            in (fst saved @ [TemplateSaved], snd saved, ListView_p0)))"

section \<open>Notions used to state the properties\<close>

text \<open>All fields of a template, in section order, then field order.\<close>

definition allFields :: "'f FormTemplate \<Rightarrow> 'f list" where
  "allFields t = concat (map section_fields (sections t))"

section \<open>Example data\<close>

definition ex_tpl :: "string \<Rightarrow> FormField FormTemplate" where
  "ex_tpl i =
     \<lparr>template_id = i, name = ''Template '' @ i, sections = [],
      createdAt = ''2024-01-01T00:00:00.000Z'', updatedAt = ''2024-01-01T00:00:00.000Z''\<rparr>"



definition ex_sub :: "string \<Rightarrow> FormSubmission" where
  "ex_sub i =
     \<lparr>templateId = i, data = Map.empty(''f1'' \<mapsto> VStr ''Ada''),
      submittedAt = ''2024-02-02T00:00:00.000Z''\<rparr>"

definition ex_state_sub :: "FormField AppState" where
  "ex_state_sub =
     \<lparr>templates = [ex_tpl ''t1'', ex_tpl ''t2''],
      submissions = [ex_sub ''t1'', ex_sub ''t2''],
      ls_formTemplates = Some [ex_tpl ''t1'', ex_tpl ''t2''],
      ls_formSubmissions = Some [ex_sub ''t1'', ex_sub ''t2'']\<rparr>"

definition ex_field :: "string \<Rightarrow> FieldType \<Rightarrow> bool \<Rightarrow> FormField" where
  "ex_field i ty req =
     \<lparr>field_id = i, ftype = ty, label = ''Field '' @ i, labelStyle = None, options = None,
      required = Some req, val = Some (if ty = TBoolean then VBool False else VStr '''')\<rparr>"


definition ex_section :: "string \<Rightarrow> 'f list \<Rightarrow> 'f FormSection" where
  "ex_section i fs = \<lparr>section_id = i, title = ''Section '' @ i, section_fields = fs\<rparr>"

definition ex_form :: "string \<Rightarrow> 'f FormSection list \<Rightarrow> 'f FormTemplate" where
  "ex_form nm ss =
     \<lparr>template_id = ''t1'', name = nm, sections = ss,
      createdAt = ''2024-01-01T00:00:00.000Z'', updatedAt = ''2024-01-01T00:00:00.000Z''\<rparr>"

definition ex_intake :: "FormField FormTemplate" where
  "ex_intake = ex_form ''Intake'' [ex_section ''s1'' [ex_field ''f1'' TText True]]"

definition ex_session :: "FormField FormTemplate \<Rightarrow> Session" where
  "ex_session working =
     \<lparr>ctx = \<lparr>templates = [ex_intake], submissions = [],
              ls_formTemplates = Some [ex_intake], ls_formSubmissions = None\<rparr>,
      currentView = BuilderView,
      currentTemplate = working,
      originalTemplate = ex_intake,
      isAlertOpen = False\<rparr>"

definition ex_checkbox_form :: "FormField FormTemplate" where
  "ex_checkbox_form = ex_form ''Intake'' [ex_section ''s1'' [ex_field ''b'' TBoolean True]]"








definition ex_unnamed :: "FormField FormTemplate" where
  "ex_unnamed = ex_intake\<lparr>name := ''''\<rparr>"

definition ex_blank_named :: "FormField FormTemplate" where
  "ex_blank_named = ex_intake\<lparr>name := ''  ''\<rparr>"

definition ex_spec :: "FieldType \<Rightarrow> PartialFormField" where
  "ex_spec ty =
     \<lparr>p_id = Some ''f1'', p_type = Some ty, p_label = Some ''Heading'', p_labelStyle = None,
      p_options = None, p_required = None, p_value = None\<rparr>"

definition ex_two_sections :: "FormField FormTemplate" where
  "ex_two_sections =
     ex_form ''Intake'' [ex_section ''s1'' [ex_field ''f0'' TText True], ex_section ''s2'' []]"

definition ex_slots :: "FormField option FormTemplate" where
  "ex_slots =
     ex_form ''Intake''
       [ex_section ''s1'' [Some (ex_field ''a'' TText True), Some (ex_field ''b'' TText True),
                           Some (ex_field ''c'' TText True)],
        ex_section ''s2'' [Some (ex_field ''d'' TText True)]]"

definition ex_drop :: "nat \<Rightarrow> nat \<Rightarrow> DropResult" where
  "ex_drop i j =
     \<lparr>source = \<lparr>droppableId = ''s1'', index = i\<rparr>,
      destination = Some \<lparr>droppableId = ''s1'', index = j\<rparr>\<rparr>"

definition ex_value_edited :: "FormField FormTemplate" where
  "ex_value_edited =
     ex_form ''Intake''
       [ex_section ''s1'' [(ex_field ''f1'' TText True)\<lparr>val := Some (VStr ''x'')\<rparr>]]"

definition ex_palette_label :: PartialFormField where
  "ex_palette_label =
     \<lparr>p_id = Some ''field_1700000000000'', p_type = Some TLabel, p_label = Some ''New Label'',
      p_labelStyle = Some H2, p_options = None, p_required = Some False, p_value = None\<rparr>"

section \<open>Facts about the list primitives\<close>

lemma findIndex_None_iff: "findIndex p xs = None \<longleftrightarrow> (\<forall>x\<in>set xs. \<not> p x)"
  by (induction xs) auto

lemma findIndex_SomeD: "findIndex p xs = Some i \<Longrightarrow> i < length xs \<and> p (xs ! i)"
  by (induction xs arbitrary: i) (auto split: if_splits)

section \<open>The template repository\<close>

subsection \<open>Creating a sixth template\<close>

text \<open>
  In the provider of AppContext.tsx a template with a new id is always appended; when
  that makes six, \<^verbatim>\<open>slice(-5)\<close> keeps the last five, so the oldest template is dropped.
\<close>

lemma saveTemplate_full_evicts:
  assumes "length (templates st) = 5"
    and "\<forall>t\<in>set (templates st). template_id t \<noteq> template_id template"
  shows "templates (saveTemplate now template st) =
           tl (templates st) @ [template\<lparr>updatedAt := now\<rparr>]"
proof -
  have "findIndex (\<lambda>t. template_id t = template_id template) (templates st) = None"
    using assms(2) by (simp add: findIndex_None_iff)
  moreover obtain x xs where "templates st = x # xs"
    using assms(1) by (cases "templates st") auto
  ultimately show ?thesis
    using assms(1) by (simp add: saveTemplate_def slice_last_def Let_def)
qed

text \<open>
  The updater of the single-file page refuses instead: it raises the "Template Limit
  Reached" toast and returns the previous collection.
\<close>

lemma saveTemplate_p0_full_refuses:
  assumes "length prev \<ge> 5"
    and "\<forall>t\<in>set prev. template_id t \<noteq> template_id template"
  shows "saveTemplate_p0 now template prev = ([TemplateLimitReached], prev)"
  using assms by (simp add: saveTemplate_p0_def findIndex_None_iff[THEN iffD2])






subsection \<open>Deleting a template\<close>

text \<open>
  \<^verbatim>\<open>deleteTemplate\<close> of AppContext.tsx filters the templates only; the submissions and
  their storage key are not touched.
\<close>

lemma deleteTemplate_submissions:
  "submissions (deleteTemplate i st) = submissions st \<and>
   ls_formSubmissions (deleteTemplate i st) = ls_formSubmissions st"
  by (simp add: deleteTemplate_def Let_def)

lemma deleteTemplate_templates:
  "templates (deleteTemplate i st) = filter (\<lambda>t. template_id t \<noteq> i) (templates st)"
  by (simp add: deleteTemplate_def Let_def)

text \<open>The single-file page removes the template and, with it, its submissions.\<close>

lemma deleteTemplate_p0_cascades:
  "set (snd (deleteTemplate_p0 i (ts, subs))) = {s \<in> set subs. templateId_p0 s \<noteq> i} \<and>
   set (fst (deleteTemplate_p0 i (ts, subs))) = {t \<in> set ts. template_id t \<noteq> i}"
  by (auto simp: deleteTemplate_p0_def)

text \<open>
  Claim C2: deleting a template removes it if present, is a no-op if absent, and removes
  every submission of that template, nothing else. The provider of AppContext.tsx removes
  the template but not its submissions. Evaluated on templates \<open>t1\<close>, \<open>t2\<close> with one
  submission each: after deleting \<open>t1\<close> its submission is still held and still stored.
\<close>

theorem deleteTemplate_keeps_submissions:
  "templates (deleteTemplate ''t1'' ex_state_sub) = [ex_tpl ''t2''] \<and>
   submissions (deleteTemplate ''t1'' ex_state_sub) = [ex_sub ''t1'', ex_sub ''t2''] \<and>
   ls_formSubmissions (deleteTemplate ''t1'' ex_state_sub) = Some [ex_sub ''t1'', ex_sub ''t2''] \<and>
   templateId (ex_sub ''t1'') = ''t1''"
  by (simp add: deleteTemplate_def ex_state_sub_def ex_tpl_def ex_sub_def Let_def)

section \<open>The submission validator\<close>

subsection \<open>The keys of the error map\<close>

text \<open>
  Both validators run the same two nested loops; the keys of the map they build are the
  ids of the fields for which the loop body assigns a message.
\<close>

lemma fold_fields_dom:
  "dom (foldl (\<lambda>errs field. case err field of None \<Rightarrow> errs
                             | Some msg \<Rightarrow> errs(key field \<mapsto> msg))
              errs fs) =
   dom errs \<union> key ` {f \<in> set fs. err f \<noteq> None}"
  by (induction fs arbitrary: errs) (auto split: option.splits)

lemma fold_sections_dom:
  "dom (foldl (\<lambda>errs section.
                 foldl (\<lambda>errs field. case err field of None \<Rightarrow> errs
                                       | Some msg \<Rightarrow> errs(key field \<mapsto> msg))
                       errs (section_fields section))
              errs ss) =
   dom errs \<union> key ` {f \<in> set (concat (map section_fields ss)). err f \<noteq> None}"
proof (induction ss arbitrary: errs)
  case Nil
  then show ?case by simp
next
  case (Cons s ss)
  show ?case
    by (simp add: Cons.IH fold_fields_dom) blast
qed


lemma validateForm_errors_p0_dom:
  "dom (validateForm_errors_p0 t vals) =
     id_p0 ` {f \<in> set (allFields t). fieldError_p0 vals f \<noteq> None}"
  by (simp add: validateForm_errors_p0_def allFields_def fold_sections_dom)

subsection \<open>What the loop body decides for one field\<close>

lemma not_numeric_not_blank: "\<not> isStringNumericLiteral s \<Longrightarrow> trim s \<noteq> [] \<and> s \<noteq> []"
  by (auto simp: isStringNumericLiteral_def Let_def trim_def)




lemma fieldError_false:
  "ftype f \<noteq> TLabel \<Longrightarrow> required f = Some True \<Longrightarrow>
   vals (field_id f) = Some (VBool False) \<Longrightarrow>
   fieldError vals f = Some (label f @ '' is required'')"
  by (simp add: fieldError_def js_not_def)

lemma fieldError_number_string:
  "ftype f = TNumber \<Longrightarrow> required f = Some True \<Longrightarrow>
   vals (field_id f) = Some (VStr s) \<Longrightarrow> \<not> isStringNumericLiteral s \<Longrightarrow>
   fieldError vals f = Some (label f @ '' must be a valid number'')"
  using not_numeric_not_blank[of s]
  by (auto simp: fieldError_def js_not_def isNaN_Number_opt_def)




lemma fieldError_p0_absent:
  "type_p0 f \<noteq> TLabel \<Longrightarrow> required_p0 f = Some True \<Longrightarrow> formData (id_p0 f) = None \<Longrightarrow>
   fieldError_p0 formData f = Some ''This field is required''"
  by (simp add: fieldError_p0_def js_not_def)

lemma fieldError_p0_false:
  "formData (id_p0 f) = Some (VBool False) \<Longrightarrow> fieldError_p0 formData f = None"
  by (auto simp: fieldError_p0_def js_not_def isNaN_Number_opt_def)


subsection \<open>A required checkbox\<close>

text \<open>
  The validator of the single-file page exempts \<^verbatim>\<open>false\<close> (and \<^verbatim>\<open>0\<close>) from the
  "required" test: an explicit \<^verbatim>\<open>false\<close> gives no entry, a missing value does.
\<close>

lemma validateForm_p0_false_passes:
  assumes "formData k = Some (VBool False)"
  shows "validateForm_errors_p0 t formData k = None"
proof -
  have "k \<notin> dom (validateForm_errors_p0 t formData)"
    using assms by (auto simp: validateForm_errors_p0_dom fieldError_p0_false)
  then show ?thesis by blast
qed

lemma validateForm_p0_absent_fails:
  assumes "f \<in> set (allFields t)" and "type_p0 f \<noteq> TLabel" and "required_p0 f = Some True"
    and "formData (id_p0 f) = None"
  shows "validateForm_errors_p0 t formData (id_p0 f) \<noteq> None"
proof -
  have "id_p0 f \<in> dom (validateForm_errors_p0 t formData)"
    unfolding validateForm_errors_p0_dom using assms fieldError_p0_absent[of f formData]
    by (intro imageI) simp
  then show ?thesis by blast
qed

text \<open>
  Claim C3: for a required boolean field, the explicit value \<^verbatim>\<open>false\<close> produces no error
  entry, a missing value produces one. \<^verbatim>\<open>validateForm\<close> of the form filler
  (src/unnamed/part\_003) tests \<^verbatim>\<open>!value\<close> first, so \<^verbatim>\<open>false\<close> is reported as missing.
  Evaluated on a form with one required checkbox \<open>b\<close> and the value map \<open>{b: false}\<close>: the
  field gets the entry "... is required" and the form is rejected; \<open>isFormValid\<close> keeps
  the submit button disabled for the same value map.
\<close>

theorem validateForm_required_checkbox_false_rejected:
  "allFields ex_checkbox_form = [ex_field ''b'' TBoolean True] \<and>
   validateForm_errors ex_checkbox_form (Map.empty(''b'' \<mapsto> VBool False)) ''b'' =
     Some ''Field b is required'' \<and>
   validateForm ex_checkbox_form (Map.empty(''b'' \<mapsto> VBool False)) = False \<and>
   isFormValid ex_checkbox_form (Map.empty(''b'' \<mapsto> VBool False)) = False"
  by (simp add: validateForm_def validateForm_errors_def isFormValid_def fieldError_def
      allFields_def ex_checkbox_form_def ex_form_def ex_section_def ex_field_def js_not_def)

subsection \<open>Number fields\<close>




subsection \<open>The empty value map\<close>





section \<open>The template builder\<close>

subsection \<open>Validity and saving\<close>

lemma dropWhile_all_iff: "(\<forall>x\<in>set (dropWhile P xs). P x) \<longleftrightarrow> (\<forall>x\<in>set xs. P x)"
  by (induction xs) auto

lemma trim_empty_iff: "trim s = [] \<longleftrightarrow> (\<forall>c\<in>set s. isWhiteSpace c)"
  by (simp add: trim_def dropWhile_all_iff)

lemma isTemplateValid_iff:
  "isTemplateValid t \<longleftrightarrow>
     (\<exists>c\<in>set (name t). \<not> isWhiteSpace c) \<and> sections t \<noteq> [] \<and>
     (\<exists>s\<in>set (sections t). section_fields s \<noteq> [])"
  by (auto simp: isTemplateValid_def trim_empty_iff list_ex_iff)

lemma saveTemplate_stored:
  "ls_formTemplates (saveTemplate now t st) = Some (templates (saveTemplate now t st))"
  by (simp add: saveTemplate_def Let_def)

lemma saveTemplate_member:
  "t\<lparr>updatedAt := now\<rparr> \<in> set (templates (saveTemplate now t st))"
proof (cases "findIndex (\<lambda>u. template_id u = template_id t) (templates st)")
  case None
  then show ?thesis
    by (simp add: saveTemplate_def Let_def slice_last_def)
next
  case (Some i)
  then have "i < length (templates st)"
    using findIndex_SomeD by fastforce
  then show ?thesis
    using Some by (simp add: saveTemplate_def Let_def set_update_memI)
qed

text \<open>
  Claim C5: the working copy is valid exactly when its name is not blank (not empty and
  not white space only), it has a section, and some section has a field; saving is
  refused exactly when this fails. In the builder of TemplateBuilder.tsx \<open>handleSave\<close>
  leaves everything as it is for an invalid working copy; for a valid one it hands the
  working copy to \<open>saveTemplate\<close>, after which the stamped copy is among the templates
  and in local storage, and the page shows the list.
\<close>

theorem isTemplateValid_gates_save:
  "(isTemplateValid (currentTemplate S) \<longleftrightarrow>
      (\<exists>c\<in>set (name (currentTemplate S)). \<not> isWhiteSpace c) \<and>
      sections (currentTemplate S) \<noteq> [] \<and>
      (\<exists>s\<in>set (sections (currentTemplate S)). section_fields s \<noteq> [])) \<and>
   (\<not> isTemplateValid (currentTemplate S) \<longrightarrow> handleSave now S = S) \<and>
   (isTemplateValid (currentTemplate S) \<longrightarrow>
      handleSave now S =
        S\<lparr>ctx := saveTemplate now (currentTemplate S) (ctx S), currentView := ListView\<rparr> \<and>
      (currentTemplate S)\<lparr>updatedAt := now\<rparr> \<in> set (templates (ctx (handleSave now S))) \<and>
      ls_formTemplates (ctx (handleSave now S)) = Some (templates (ctx (handleSave now S))))"
  using isTemplateValid_iff[of "currentTemplate S"]
  by (simp add: handleSave_def onSave_def saveTemplate_member saveTemplate_stored)

theorem isTemplateValid_gates_save_witness:
  "isTemplateValid ex_intake \<and>
   handleSave ''2024-03-03T00:00:00.000Z'' (ex_session ex_intake) =
     (ex_session ex_intake)
       \<lparr>ctx := saveTemplate ''2024-03-03T00:00:00.000Z'' ex_intake (ctx (ex_session ex_intake)),
        currentView := ListView\<rparr> \<and>
   templates (ctx (handleSave ''2024-03-03T00:00:00.000Z'' (ex_session ex_intake))) =
     [ex_intake\<lparr>updatedAt := ''2024-03-03T00:00:00.000Z''\<rparr>] \<and>
   \<not> isTemplateValid ex_blank_named \<and>
   handleSave ''2024-03-03T00:00:00.000Z'' (ex_session ex_blank_named) = ex_session ex_blank_named"
proof -
  have cur: "currentTemplate (ex_session w) = w" for w
    by (simp add: ex_session_def)
  have valid: "isTemplateValid ex_intake"
    by (simp add: isTemplateValid_def ex_intake_def ex_form_def ex_section_def trim_def
        isWhiteSpace_def)
  have blank: "\<not> isTemplateValid ex_blank_named"
    by (simp add: isTemplateValid_def ex_blank_named_def ex_intake_def ex_form_def trim_def
        isWhiteSpace_def)
  note saved = isTemplateValid_gates_save
    [of "ex_session ex_intake" "''2024-03-03T00:00:00.000Z''"]
  note refused = isTemplateValid_gates_save
    [of "ex_session ex_blank_named" "''2024-03-03T00:00:00.000Z''"]
  have list: "templates (saveTemplate ''2024-03-03T00:00:00.000Z'' ex_intake
                (ctx (ex_session ex_intake))) =
              [ex_intake\<lparr>updatedAt := ''2024-03-03T00:00:00.000Z''\<rparr>]"
    by (simp add: saveTemplate_def ex_session_def Let_def)
  show ?thesis
    using saved refused valid blank by (simp add: cur list)
qed

text \<open>
  The single-file page checks the name and the sections only; a named template whose
  sections are all empty is saved there.
\<close>

lemma handleSave_p0_accepts_without_fields:
  assumes "trim (name t) \<noteq> []" and "sections t \<noteq> []"
  shows "handleSave_p0 now t st =
           (fst (saveTemplate_p0 now t (fst st)) @ [TemplateSaved],
            snd (saveTemplate_p0 now t (fst st)), ListView_p0)"
  using assms by (simp add: handleSave_p0_def Let_def)

subsection \<open>Leaving with unsaved changes\<close>

lemma saveAndExit_always_leaves: "currentView (saveAndExit now S) = ListView"
  by (simp add: saveAndExit_def onBack_def)

lemma saveAndExit_invalid:
  "\<not> isTemplateValid (currentTemplate S) \<Longrightarrow>
   saveAndExit now S = S\<lparr>currentView := ListView\<rparr>"
  by (simp add: saveAndExit_def onBack_def handleSave_def)

text \<open>
  Claim C6: "Save \& Exit" leaves the session only if the save succeeds; with an invalid
  working copy nothing is saved and the user stays in the builder. The dialog action of
  TemplateBuilder.tsx runs \<open>handleSave\<close> and then \<open>onBack\<close> without looking at the
  outcome. Evaluated on a session whose template name was cleared: the session is dirty,
  "Back" opens the dialog, the working copy is invalid, "Save \& Exit" changes nothing in
  the repository, and the page shows the list: the edit is lost.
\<close>

theorem saveAndExit_invalid_leaves_session:
  "isDirty (ex_session ex_unnamed) \<and>
   handleBack (ex_session ex_unnamed) = (ex_session ex_unnamed)\<lparr>isAlertOpen := True\<rparr> \<and>
   isTemplateValid ex_unnamed = False \<and>
   currentView ((ex_session ex_unnamed)\<lparr>isAlertOpen := True\<rparr>) = BuilderView \<and>
   ctx (saveAndExit ''2024-03-03T00:00:00.000Z''
          ((ex_session ex_unnamed)\<lparr>isAlertOpen := True\<rparr>)) = ctx (ex_session ex_unnamed) \<and>
   currentView (saveAndExit ''2024-03-03T00:00:00.000Z''
                  ((ex_session ex_unnamed)\<lparr>isAlertOpen := True\<rparr>)) = ListView"
  by (simp add: isDirty_def handleBack_def saveAndExit_def handleSave_def onBack_def
      isTemplateValid_def trim_def ex_session_def ex_unnamed_def ex_intake_def ex_form_def
      templateJSON_def)

subsection \<open>Adding a field\<close>

lemma handleAddField_defaults:
  assumes "handleAddField ms ty ans = Some spec"
  shows "p_type spec = Some ty \<and> p_required spec = Some (ty \<noteq> TLabel) \<and>
         p_labelStyle spec = (if ty = TLabel then Some H2 else None)"
  using assms by (auto simp: handleAddField_def Let_def split: if_splits option.splits)

lemma addFieldToSection_nth:
  assumes "k < length (sections t)"
  shows "sections (addFieldToSection n sid spec t) ! k =
           (if section_id (sections t ! k) = sid
            then (sections t ! k)\<lparr>section_fields :=
                   section_fields (sections t ! k) @ [completeField n spec]\<rparr>
            else sections t ! k)"
  using assms by (simp add: addFieldToSection_def)

lemma addFieldToSection_tb2_nth:
  assumes "k < length (sections t)"
  shows "sections (addFieldToSection_tb2 n sid spec t) ! k =
           (if section_id (sections t ! k) = sid
            then (sections t ! k)\<lparr>section_fields :=
                   section_fields (sections t ! k) @ [completeField_tb2 n spec]\<rparr>
            else sections t ! k)"
  using assms by (simp add: addFieldToSection_tb2_def)

text \<open>
  Claim C7 as stated (an omitted \<^verbatim>\<open>required\<close> becomes \<^verbatim>\<open>true\<close> for a non-label field, an
  omitted \<^verbatim>\<open>labelStyle\<close> becomes \<^verbatim>\<open>h2\<close> for a label, and the field is appended to the
  named section) fails in its first two parts. Adding a label without a style gives a
  field without a style in both builders; adding a text field without \<^verbatim>\<open>required\<close>
  gives \<^verbatim>\<open>required: false\<close> in the current builder. The field does go to the end of
  section \<open>s1\<close>.
\<close>

theorem addFieldToSection_applies_no_defaults:
  "p_labelStyle (ex_spec TLabel) = None \<and> p_required (ex_spec TText) = None \<and>
   map section_fields
     (sections (addFieldToSection ''1700000000000'' ''s1'' (ex_spec TLabel) ex_two_sections)) =
     [[ex_field ''f0'' TText True,
       \<lparr>field_id = ''f1'', ftype = TLabel, label = ''Heading'', labelStyle = None,
        options = None, required = Some False, val = Some (VStr '''')\<rparr>], []] \<and>
   map section_fields
     (sections (addFieldToSection ''1700000000000'' ''s1'' (ex_spec TText) ex_two_sections)) =
     [[ex_field ''f0'' TText True,
       \<lparr>field_id = ''f1'', ftype = TText, label = ''Heading'', labelStyle = None,
        options = None, required = Some False, val = Some (VStr '''')\<rparr>], []] \<and>
   map section_fields
     (sections (addFieldToSection_tb2 ''1700000000000'' ''s1'' (ex_spec TLabel) ex_two_sections)) =
     [[ex_field ''f0'' TText True,
       \<lparr>field_id = ''f1'', ftype = TLabel, label = ''Heading'', labelStyle = None,
        options = None, required = Some True, val = None\<rparr>], []]"
  by (simp add: addFieldToSection_def addFieldToSection_tb2_def completeField_def
      completeField_tb2_def ex_spec_def ex_two_sections_def ex_form_def ex_section_def)

text \<open>
  Claim C7, amended: \<^verbatim>\<open>addFieldToSection\<close> copies \<^verbatim>\<open>labelStyle\<close> from the partial field
  (an omitted style stays absent) and copies \<^verbatim>\<open>required\<close> when it is given. The
  defaults of the claim are those of the palette: for every partial field that
  \<open>handleAddField\<close> hands over, the completed field has \<^verbatim>\<open>required\<close> true exactly for
  the non-label types and the style \<^verbatim>\<open>h2\<close> exactly for labels. The completed field is
  appended at the end of each section whose id is the given one; every other section is
  unchanged, and no section is added or removed. This holds for both builders of
  TemplateBuilder.tsx.
\<close>

theorem addFieldToSection_appends_field_as_given:
  assumes "k < length (sections t)"
  shows "labelStyle (completeField n spec) = p_labelStyle spec \<and>
         labelStyle (completeField_tb2 n spec) = p_labelStyle spec \<and>
         (p_required spec = Some b \<longrightarrow>
            required (completeField n spec) = Some b \<and>
            required (completeField_tb2 n spec) = Some b) \<and>
         (handleAddField ms ty ans = Some spec \<longrightarrow>
            ftype (completeField n spec) = ty \<and>
            required (completeField n spec) = Some (ty \<noteq> TLabel) \<and>
            labelStyle (completeField n spec) = (if ty = TLabel then Some H2 else None) \<and>
            ftype (completeField_tb2 n spec) = ty \<and>
            required (completeField_tb2 n spec) = Some (ty \<noteq> TLabel) \<and>
            labelStyle (completeField_tb2 n spec) = (if ty = TLabel then Some H2 else None)) \<and>
         sections (addFieldToSection n sid spec t) ! k =
           (if section_id (sections t ! k) = sid
            then (sections t ! k)\<lparr>section_fields :=
                   section_fields (sections t ! k) @ [completeField n spec]\<rparr>
            else sections t ! k) \<and>
         sections (addFieldToSection_tb2 n sid spec t) ! k =
           (if section_id (sections t ! k) = sid
            then (sections t ! k)\<lparr>section_fields :=
                   section_fields (sections t ! k) @ [completeField_tb2 n spec]\<rparr>
            else sections t ! k) \<and>
         length (sections (addFieldToSection n sid spec t)) = length (sections t) \<and>
         length (sections (addFieldToSection_tb2 n sid spec t)) = length (sections t)"
proof -
  have "ftype (completeField n spec) = ty \<and>
        required (completeField n spec) = Some (ty \<noteq> TLabel) \<and>
        labelStyle (completeField n spec) = (if ty = TLabel then Some H2 else None) \<and>
        ftype (completeField_tb2 n spec) = ty \<and>
        required (completeField_tb2 n spec) = Some (ty \<noteq> TLabel) \<and>
        labelStyle (completeField_tb2 n spec) = (if ty = TLabel then Some H2 else None)"
    if "handleAddField ms ty ans = Some spec"
    using handleAddField_defaults[OF that]
    by (simp add: completeField_def completeField_tb2_def)
  moreover have "length (sections (addFieldToSection n sid spec t)) = length (sections t)"
    and "length (sections (addFieldToSection_tb2 n sid spec t)) = length (sections t)"
    by (simp_all add: addFieldToSection_def addFieldToSection_tb2_def)
  moreover have "labelStyle (completeField n spec) = p_labelStyle spec"
    and "labelStyle (completeField_tb2 n spec) = p_labelStyle spec"
    by (simp_all add: completeField_def completeField_tb2_def)
  moreover have "required (completeField n spec) = Some b \<and>
                 required (completeField_tb2 n spec) = Some b"
    if "p_required spec = Some b"
    using that by (simp add: completeField_def completeField_tb2_def)
  ultimately show ?thesis
    using addFieldToSection_nth[OF assms, of n sid spec]
      addFieldToSection_tb2_nth[OF assms, of n sid spec]
    by blast
qed

theorem addFieldToSection_appends_field_as_given_witness:
  "handleAddField ''1700000000000'' TLabel None = Some ex_palette_label \<and>
   labelStyle (completeField ''1700000000001'' ex_palette_label) = Some H2 \<and>
   required (completeField ''1700000000001'' ex_palette_label) = Some False \<and>
   section_fields
     (sections (addFieldToSection ''1700000000001'' ''s1'' ex_palette_label ex_two_sections) ! 0) =
     [ex_field ''f0'' TText True, completeField ''1700000000001'' ex_palette_label] \<and>
   section_fields
     (sections (addFieldToSection ''1700000000001'' ''s2'' ex_palette_label ex_two_sections) ! 0) =
     [ex_field ''f0'' TText True]"
proof -
  have len: "0 < length (sections ex_two_sections)"
    by (simp add: ex_two_sections_def ex_form_def)
  have first: "sections ex_two_sections ! 0 = ex_section ''s1'' [ex_field ''f0'' TText True]"
    by (simp add: ex_two_sections_def ex_form_def)
  have palette: "handleAddField ''1700000000000'' TLabel None = Some ex_palette_label"
    by (simp add: handleAddField_def ex_palette_label_def)
  note s1 = addFieldToSection_appends_field_as_given
    [OF len, of "''1700000000001''" ex_palette_label False "''1700000000000''" TLabel None
       "''s1''"]
  note s2 = addFieldToSection_appends_field_as_given
    [OF len, of "''1700000000001''" ex_palette_label False "''1700000000000''" TLabel None
       "''s2''"]
  show ?thesis
    using s1 s2 palette by (simp add: first ex_section_def)
qed

subsection \<open>Reordering by drag and drop\<close>

lemma reorder_in_bounds:
  assumes "i < length xs"
  shows "reorder xs i j =
           take j (take i xs @ drop (Suc i) xs) @ [xs ! i] @ drop j (take i xs @ drop (Suc i) xs)"
  using assms by (simp add: reorder_def splice_def Let_def Cons_nth_drop_Suc[symmetric])

text \<open>
  A source index past the end removes nothing; \<^verbatim>\<open>undefined\<close> is then inserted at the
  destination.
\<close>

lemma reorder_source_out_of_bounds:
  assumes "length xs \<le> i"
  shows "reorder xs i j = take j xs @ [None] @ drop j xs"
proof -
  have "take i xs = xs" and "drop (i + 1) xs = []" and "drop i xs = []"
    using assms by simp_all
  then have "splice xs i 1 [] = ([], xs)"
    by (simp add: splice_def)
  then have "reorder xs i j = snd (splice xs j 0 [None])"
    unfolding reorder_def Let_def by simp
  then show ?thesis
    by (simp add: splice_def)
qed

lemma reorder_mset:
  assumes "i < length xs"
  shows "mset (reorder xs i j) = mset xs"
proof -
  let ?ys = "take i xs @ drop (Suc i) xs"
  have "mset (reorder xs i j) = mset (take j ?ys @ drop j ?ys) + {#xs ! i#}"
    using assms by (simp add: reorder_in_bounds)
  also have "\<dots> = mset ?ys + {#xs ! i#}"
    by (simp only: append_take_drop_id)
  also have "\<dots> = mset (take i xs @ xs ! i # drop (Suc i) xs)"
    by simp
  also have "\<dots> = mset xs"
    using assms by (simp only: id_take_nth_drop[symmetric])
  finally show ?thesis .
qed

lemma reorder_to_end:
  "i < length xs \<Longrightarrow> length xs - 1 \<le> j \<Longrightarrow>
   reorder xs i j = take i xs @ drop (Suc i) xs @ [xs ! i]"
  by (simp add: reorder_in_bounds)

lemma find_distinct:
  assumes "distinct (map f xs)" and "k < length xs" and "f (xs ! k) = a"
  shows "find (\<lambda>x. f x = a) xs = Some (xs ! k)"
  using assms
proof (induction xs arbitrary: k)
  case Nil
  then show ?case by simp
next
  case (Cons x xs)
  show ?case
  proof (cases k)
    case 0
    with Cons.prems show ?thesis by simp
  next
    case (Suc m)
    with Cons.prems have "f x \<noteq> a"
      by (auto simp: image_iff)
    with Suc Cons show ?thesis by simp
  qed
qed

lemma find_None_set: "find P xs = None \<longleftrightarrow> (\<forall>x\<in>set xs. \<not> P x)"
  by (induction xs) auto

lemma handleDragEnd_nth:
  assumes "distinct (map section_id (sections t))" and "k < length (sections t)"
    and "destination r = Some d"
  shows "sections (handleDragEnd r t) ! k =
           (if section_id (sections t ! k) = droppableId (source r) \<and>
               droppableId d = droppableId (source r)
            then (sections t ! k)\<lparr>section_fields :=
                   reorder (section_fields (sections t ! k)) (index (source r)) (index d)\<rparr>
            else sections t ! k)"
proof (cases "droppableId (source r) = droppableId d")
  case False
  then show ?thesis using assms by (auto simp: handleDragEnd_def)
next
  case same: True
  show ?thesis
  proof (cases "find (\<lambda>s. section_id s = droppableId (source r)) (sections t)")
    case None
    then have "section_id (sections t ! k) \<noteq> droppableId (source r)"
      using assms(2) by (auto simp: find_None_set)
    then show ?thesis using assms None same by (simp add: handleDragEnd_def)
  next
    case (Some s)
    show ?thesis
    proof (cases "section_id (sections t ! k) = droppableId (source r)")
      case True
      then have "s = sections t ! k"
        using find_distinct[OF assms(1) assms(2) True] Some by simp
      then show ?thesis
        using assms Some same True by (simp add: handleDragEnd_def updateSection_def)
    next
      case False
      have "section_id s = droppableId (source r)"
        using Some by (auto simp: find_Some_iff)
      then show ?thesis
        using assms Some same False by (simp add: handleDragEnd_def updateSection_def)
    qed
  qed
qed

lemma handleDragEnd_frame:
  "length (sections (handleDragEnd r t)) = length (sections t) \<and>
   template_id (handleDragEnd r t) = template_id t \<and> name (handleDragEnd r t) = name t \<and>
   createdAt (handleDragEnd r t) = createdAt t \<and> updatedAt (handleDragEnd r t) = updatedAt t"
  by (simp add: handleDragEnd_def updateSection_def split: option.splits)

lemma onDragEnd_p0_nth:
  assumes "k < length (sections t)" and "destination r = Some d"
  shows "sections (onDragEnd_p0 r t) ! k =
           (if section_id (sections t ! k) = droppableId (source r)
            then (sections t ! k)\<lparr>section_fields :=
                   reorder (section_fields (sections t ! k)) (index (source r)) (index d)\<rparr>
            else sections t ! k)"
  using assms by (simp add: onDragEnd_p0_def)

lemma onDragEnd_p0_frame:
  "length (sections (onDragEnd_p0 r t)) = length (sections t) \<and>
   template_id (onDragEnd_p0 r t) = template_id t \<and> name (onDragEnd_p0 r t) = name t \<and>
   createdAt (onDragEnd_p0 r t) = createdAt t \<and> updatedAt (onDragEnd_p0 r t) = updatedAt t"
  by (simp add: onDragEnd_p0_def split: option.splits)

text \<open>A drop outside every list changes nothing.\<close>

lemma drop_without_destination:
  "destination r = None \<Longrightarrow> handleDragEnd r t = t \<and> onDragEnd_p0 r t = t"
  by (simp add: handleDragEnd_def onDragEnd_p0_def)

text \<open>
  Claim C8 as stated (a reorder whose source or destination index is out of bounds
  leaves the field list unchanged) fails: neither drag handler checks an index. In a
  section holding \<open>a, b, c\<close>, moving index 0 to index 5 gives \<open>b, c, a\<close>, and moving index
  7 to index 1 inserts \<^verbatim>\<open>undefined\<close> after \<open>a\<close>.
\<close>

theorem reorder_out_of_bounds_changes_list:
  "map section_fields (sections ex_slots) =
     [[Some (ex_field ''a'' TText True), Some (ex_field ''b'' TText True),
       Some (ex_field ''c'' TText True)], [Some (ex_field ''d'' TText True)]] \<and>
   map section_fields (sections (handleDragEnd (ex_drop 0 5) ex_slots)) =
     [[Some (ex_field ''b'' TText True), Some (ex_field ''c'' TText True),
       Some (ex_field ''a'' TText True)], [Some (ex_field ''d'' TText True)]] \<and>
   map section_fields (sections (handleDragEnd (ex_drop 7 1) ex_slots)) =
     [[Some (ex_field ''a'' TText True), None, Some (ex_field ''b'' TText True),
       Some (ex_field ''c'' TText True)], [Some (ex_field ''d'' TText True)]] \<and>
   map section_fields (sections (onDragEnd_p0 (ex_drop 0 5) ex_slots)) =
     [[Some (ex_field ''b'' TText True), Some (ex_field ''c'' TText True),
       Some (ex_field ''a'' TText True)], [Some (ex_field ''d'' TText True)]]"
  by (simp add: handleDragEnd_def onDragEnd_p0_def updateSection_def reorder_def splice_def
      ex_slots_def ex_drop_def ex_form_def ex_section_def Let_def)

text \<open>
  Claim C8, amended: the drag handlers check no index and have no failing branch. When
  the field is dropped in its own section and the source index is in bounds, the field
  is taken out and put back at the destination index, or at the end when that index is
  past the end: the section keeps its fields and their number, every other section and
  every other attribute of the template is unchanged. (Section ids are taken to be
  unique, as the data model says.) Both handlers agree here.
\<close>

theorem reorder_moves_field_within_section:
  assumes "distinct (map section_id (sections t))"
    and "k < length (sections t)"
    and "section_id (sections t ! k) = droppableId (source r)"
    and "destination r = Some d"
    and "droppableId d = droppableId (source r)"
    and "index (source r) < length (section_fields (sections t ! k))"
  shows "let xs = section_fields (sections t ! k);
             i = index (source r);
             j = index d;
             rest = take i xs @ drop (Suc i) xs;
             t' = handleDragEnd r t
         in sections t' ! k = (sections t ! k)\<lparr>section_fields := take j rest @ [xs ! i] @ drop j rest\<rparr> \<and>
            (length xs - 1 \<le> j \<longrightarrow> section_fields (sections t' ! k) = rest @ [xs ! i]) \<and>
            length (section_fields (sections t' ! k)) = length xs \<and>
            mset (section_fields (sections t' ! k)) = mset xs \<and>
            (\<forall>m<length (sections t). m \<noteq> k \<longrightarrow> sections t' ! m = sections t ! m) \<and>
            length (sections t') = length (sections t) \<and>
            template_id t' = template_id t \<and> name t' = name t \<and>
            createdAt t' = createdAt t \<and> updatedAt t' = updatedAt t \<and>
            onDragEnd_p0 r t = t'"
proof -
  let ?xs = "section_fields (sections t ! k)"
  let ?i = "index (source r)"
  let ?j = "index d"
  let ?rest = "take ?i ?xs @ drop (Suc ?i) ?xs"
  let ?t' = "handleDragEnd r t"
  have moved: "reorder ?xs ?i ?j = take ?j ?rest @ [?xs ! ?i] @ drop ?j ?rest"
    using assms(6) by (rule reorder_in_bounds)
  have at_k: "sections ?t' ! k = (sections t ! k)\<lparr>section_fields := reorder ?xs ?i ?j\<rparr>"
    using handleDragEnd_nth[OF assms(1,2,4)] assms(3,5) by simp
  have fields_k: "section_fields (sections ?t' ! k) = reorder ?xs ?i ?j"
    by (simp add: at_k)
  have others: "sections ?t' ! m = sections t ! m" if "m < length (sections t)" and "m \<noteq> k" for m
  proof -
    have "section_id (sections t ! m) \<noteq> section_id (sections t ! k)"
      using assms(1,2) that nth_eq_iff_index_eq[of "map section_id (sections t)" m k]
      by simp
    then show ?thesis
      using handleDragEnd_nth[OF assms(1) that(1) assms(4)] assms(3) by simp
  qed
  have same_nth: "sections (onDragEnd_p0 r t) ! m = sections ?t' ! m"
    if "m < length (sections t)" for m
    using onDragEnd_p0_nth[OF that assms(4)] handleDragEnd_nth[OF assms(1) that assms(4)]
      assms(5) by simp
  have "sections (onDragEnd_p0 r t) = sections ?t'"
    using same_nth handleDragEnd_frame[of r t] onDragEnd_p0_frame[of r t]
    by (intro nth_equalityI) simp_all
  then have agree: "onDragEnd_p0 r t = ?t'"
    using handleDragEnd_frame[of r t] onDragEnd_p0_frame[of r t]
    by (intro FormTemplate.equality) simp_all
  have "sections ?t' ! k = (sections t ! k)\<lparr>section_fields := take ?j ?rest @ [?xs ! ?i] @ drop ?j ?rest\<rparr>"
    using at_k moved by simp
  moreover have "length ?xs - 1 \<le> ?j \<longrightarrow> section_fields (sections ?t' ! k) = ?rest @ [?xs ! ?i]"
    using fields_k reorder_to_end[OF assms(6)] by simp
  moreover have "length (section_fields (sections ?t' ! k)) = length ?xs"
    using fields_k reorder_mset[OF assms(6), of ?j] by (metis size_mset)
  moreover have "mset (section_fields (sections ?t' ! k)) = mset ?xs"
    using fields_k reorder_mset[OF assms(6)] by simp
  moreover have "\<forall>m<length (sections t). m \<noteq> k \<longrightarrow> sections ?t' ! m = sections t ! m"
    using others by blast
  ultimately show ?thesis
    using handleDragEnd_frame[of r t] agree unfolding Let_def by blast
qed

theorem reorder_moves_field_within_section_witness:
  "map section_fields (sections (handleDragEnd (ex_drop 0 5) ex_slots)) =
     [[Some (ex_field ''b'' TText True), Some (ex_field ''c'' TText True),
       Some (ex_field ''a'' TText True)], [Some (ex_field ''d'' TText True)]] \<and>
   onDragEnd_p0 (ex_drop 0 5) ex_slots = handleDragEnd (ex_drop 0 5) ex_slots"
proof -
  have secs: "sections ex_slots =
      [ex_section ''s1'' [Some (ex_field ''a'' TText True), Some (ex_field ''b'' TText True),
                          Some (ex_field ''c'' TText True)],
       ex_section ''s2'' [Some (ex_field ''d'' TText True)]]"
    by (simp add: ex_slots_def ex_form_def)
  have h1: "distinct (map section_id (sections ex_slots))"
    by (simp add: secs ex_section_def)
  have h2: "0 < length (sections ex_slots)"
    by (simp add: secs)
  have h3: "section_id (sections ex_slots ! 0) = droppableId (source (ex_drop 0 5))"
    by (simp add: secs ex_section_def ex_drop_def)
  have h4: "destination (ex_drop 0 5) = Some \<lparr>droppableId = ''s1'', index = 5\<rparr>"
    by (simp add: ex_drop_def)
  have h5: "droppableId \<lparr>droppableId = ''s1'', index = 5\<rparr> = droppableId (source (ex_drop 0 5))"
    by (simp add: ex_drop_def)
  have h6: "index (source (ex_drop 0 5)) < length (section_fields (sections ex_slots ! 0))"
    by (simp add: secs ex_section_def ex_drop_def)
  note th = reorder_moves_field_within_section[OF h1 h2 h3 h4 h5 h6, unfolded Let_def]
  have len: "length (sections (handleDragEnd (ex_drop 0 5) ex_slots)) = 2"
    using th by (simp add: secs)
  have s0: "section_fields (sections (handleDragEnd (ex_drop 0 5) ex_slots) ! 0) =
              [Some (ex_field ''b'' TText True), Some (ex_field ''c'' TText True),
               Some (ex_field ''a'' TText True)]"
    using th by (simp add: secs ex_section_def ex_drop_def)
  have s1: "sections (handleDragEnd (ex_drop 0 5) ex_slots) ! 1 = sections ex_slots ! 1"
    using th by (simp add: secs)
  obtain a b where ab: "sections (handleDragEnd (ex_drop 0 5) ex_slots) = [a, b]"
    using len by (auto simp: length_Suc_conv numeral_2_eq_2)
  have "map section_fields (sections (handleDragEnd (ex_drop 0 5) ex_slots)) =
          [[Some (ex_field ''b'' TText True), Some (ex_field ''c'' TText True),
            Some (ex_field ''a'' TText True)], [Some (ex_field ''d'' TText True)]]"
    using s0 s1 by (simp add: ab secs ex_section_def)
  then show ?thesis
    using th by simp
qed

subsection \<open>The value slot of a field\<close>

lemma serialisable_simps [simp]:
  "serialisable None = None"
  "serialisable (Some (VBool b)) = Some (VBool b)"
  "serialisable (Some (VStr s)) = Some (VStr s)"
  "serialisable (Some (VNum n)) = Some (VNum n)"
  "serialisable (Some VFunction) = None"
  by (simp_all add: serialisable_def)

lemma completeField_value:
  "val (completeField n spec) =
     Some (if ftype (completeField n spec) = TBoolean then VBool False else VStr '''')"
  by (auto simp: completeField_def split: option.splits)

lemma optProp_simps:
  "optProp k enc None = []" "optProp k enc (Some x) = [(k, enc x)]"
  by (simp_all add: optProp_def)

lemma completeField_json:
  "\<exists>ps. fieldJSON (completeField n spec) =
          JObj (ps @ [(''value'', if ftype (completeField n spec) = TBoolean
                                  then JBool False else JStr '''')])"
  unfolding fieldJSON_def completeField_value
  by (simp add: optProp_simps del: append_assoc add: append_assoc[symmetric])

text \<open>The serialisation of a field determines the serialisation of its value slot.\<close>

lemma filter_optProp:
  "filter (\<lambda>p. fst p = k) (optProp k' enc v) = (if k = k' then optProp k' enc v else [])"
  by (cases v) (simp_all add: optProp_def)

lemma fieldJSON_value_prop:
  "(case fieldJSON f of JObj ps \<Rightarrow> filter (\<lambda>p. fst p = ''value'') ps | _ \<Rightarrow> []) =
     optProp ''value'' jsonOfValue (serialisable (val f))"
  by (simp add: fieldJSON_def filter_optProp)

lemma fieldJSON_value:
  assumes "fieldJSON f = fieldJSON g"
  shows "map_option jsonOfValue (serialisable (val f)) = map_option jsonOfValue (serialisable (val g))"
proof -
  have "optProp ''value'' jsonOfValue (serialisable (val f)) = optProp ''value'' jsonOfValue (serialisable (val g))"
    using assms fieldJSON_value_prop[of f] fieldJSON_value_prop[of g] by simp
  then show ?thesis
    by (cases "serialisable (val f)"; cases "serialisable (val g)") (simp_all add: optProp_def)
qed

lemma map_eq_transfer:
  assumes inj: "\<And>x y. f x = f y \<Longrightarrow> g x = g y"
  shows "map f xs = map f ys \<Longrightarrow> map g xs = map g ys"
proof (induction xs arbitrary: ys)
  case Nil
  then show ?case by simp
next
  case (Cons x xs)
  then obtain y ys' where ys: "ys = y # ys'"
    by (cases ys) auto
  with Cons.prems have "f x = f y" and "map f xs = map f ys'"
    by simp_all
  then show ?case
    using inj[of x y] Cons.IH[of ys'] ys by simp
qed

lemma sectionJSON_values:
  assumes "sectionJSON s = sectionJSON s'"
  shows "map (\<lambda>f. map_option jsonOfValue (serialisable (val f))) (section_fields s) =
         map (\<lambda>f. map_option jsonOfValue (serialisable (val f))) (section_fields s')"
proof -
  have "map fieldJSON (section_fields s) = map fieldJSON (section_fields s')"
    using assms by (simp add: sectionJSON_def)
  then show ?thesis
    by (rule map_eq_transfer[rotated]) (rule fieldJSON_value)
qed

lemma not_dirty_values:
  assumes "\<not> isDirty S"
  shows "map (\<lambda>s. map (\<lambda>f. map_option jsonOfValue (serialisable (val f))) (section_fields s))
             (sections (currentTemplate S)) =
         map (\<lambda>s. map (\<lambda>f. map_option jsonOfValue (serialisable (val f))) (section_fields s))
             (sections (originalTemplate S))"
proof -
  have "map sectionJSON (sections (currentTemplate S)) =
        map sectionJSON (sections (originalTemplate S))"
    using assms by (simp add: isDirty_def templateJSON_def)
  then show ?thesis
    by (rule map_eq_transfer[rotated]) (rule sectionJSON_values)
qed

text \<open>
  Claim C10: every field that \<^verbatim>\<open>addFieldToSection\<close> of TemplateBuilder.tsx constructs
  carries a \<^verbatim>\<open>value\<close> attribute, \<^verbatim>\<open>false\<close> for a boolean field and the empty string
  otherwise. The attribute is the last one of the field's serialisation and the field is
  the last of the section it is added to. A valid working copy is stored as it is, with
  its fields, by \<open>handleSave\<close>. The dirty comparison sees the slot: when the session is
  not dirty, the working copy and the original have the same serialised value slots,
  field by field (a slot is serialised when it holds a boolean, a string or a number).
\<close>

theorem added_field_carries_value_slot:
  "val (completeField n spec) =
     Some (if ftype (completeField n spec) = TBoolean then VBool False else VStr '''') \<and>
   (\<exists>ps. fieldJSON (completeField n spec) =
           JObj (ps @ [(''value'', if ftype (completeField n spec) = TBoolean
                                   then JBool False else JStr '''')])) \<and>
   (k < length (sections t) \<and> section_id (sections t ! k) = sid \<longrightarrow>
      last (section_fields (sections (addFieldToSection n sid spec t) ! k)) =
        completeField n spec) \<and>
   (isTemplateValid (currentTemplate S) \<longrightarrow>
      ls_formTemplates (ctx (handleSave now S)) = Some (templates (ctx (handleSave now S))) \<and>
      (currentTemplate S)\<lparr>updatedAt := now\<rparr> \<in> set (templates (ctx (handleSave now S)))) \<and>
   (\<not> isDirty S \<longrightarrow>
      map (\<lambda>s. map (\<lambda>f. map_option jsonOfValue (serialisable (val f))) (section_fields s))
          (sections (currentTemplate S)) =
      map (\<lambda>s. map (\<lambda>f. map_option jsonOfValue (serialisable (val f))) (section_fields s))
          (sections (originalTemplate S)))"
  using completeField_value[of n spec] completeField_json[of n spec]
    not_dirty_values[of S] addFieldToSection_nth[of k t n sid spec]
  by (simp add: handleSave_def onSave_def saveTemplate_member saveTemplate_stored)

theorem added_field_carries_value_slot_witness:
  "val (completeField ''1700000000000'' (ex_spec TBoolean)) = Some (VBool False) \<and>
   val (completeField ''1700000000000'' (ex_spec TNumber)) = Some (VStr '''') \<and>
   last (section_fields
           (sections (addFieldToSection ''1700000000000'' ''s1'' (ex_spec TBoolean)
                        ex_two_sections) ! 0)) =
     completeField ''1700000000000'' (ex_spec TBoolean) \<and>
   isDirty (ex_session ex_value_edited) \<and>
   ex_value_edited\<lparr>updatedAt := ''2024-03-03T00:00:00.000Z''\<rparr>
     \<in> set (templates (ctx (handleSave ''2024-03-03T00:00:00.000Z''
                                 (ex_session ex_value_edited))))"
proof -
  note b = added_field_carries_value_slot
    [of "''1700000000000''" "ex_spec TBoolean" 0 ex_two_sections "''s1''"
        "ex_session ex_value_edited" "''2024-03-03T00:00:00.000Z''"]
  note n = added_field_carries_value_slot
    [of "''1700000000000''" "ex_spec TNumber" 0 ex_two_sections "''s1''"
        "ex_session ex_value_edited" "''2024-03-03T00:00:00.000Z''"]
  have tb: "ftype (completeField ''1700000000000'' (ex_spec TBoolean)) = TBoolean"
    and tn: "ftype (completeField ''1700000000000'' (ex_spec TNumber)) = TNumber"
    by (simp_all add: completeField_def ex_spec_def)
  have sec: "0 < length (sections ex_two_sections) \<and>
             section_id (sections ex_two_sections ! 0) = ''s1''"
    by (simp add: ex_two_sections_def ex_form_def ex_section_def)
  have differ:
    "map (\<lambda>s. map (\<lambda>f. map_option jsonOfValue (serialisable (val f))) (section_fields s))
         (sections (currentTemplate (ex_session ex_value_edited))) \<noteq>
     map (\<lambda>s. map (\<lambda>f. map_option jsonOfValue (serialisable (val f))) (section_fields s))
         (sections (originalTemplate (ex_session ex_value_edited)))"
    by (simp add: ex_session_def ex_value_edited_def ex_intake_def ex_form_def ex_section_def
        ex_field_def)
  have valid: "isTemplateValid (currentTemplate (ex_session ex_value_edited))"
    by (simp add: isTemplateValid_def ex_session_def ex_value_edited_def ex_form_def
        ex_section_def trim_def isWhiteSpace_def)
  have cur: "currentTemplate (ex_session ex_value_edited) = ex_value_edited"
    by (simp add: ex_session_def)
  have "isDirty (ex_session ex_value_edited)"
    using b differ by blast
  then show ?thesis
    using b n tb tn sec valid by (simp add: cur)
qed

end
